theory Spec2Isabelle
  imports Main "HOL-Library.AList" "HOL-Library.Sublist"
begin

section \<open>JavaScript values\<close>

text \<open>
  Every value the two components handle is either a JSON value (tool arguments and
  response bodies arrive as parsed JSON) or \<open>undefined\<close>. A JSON value is a
  \<open>json\<close>; a JavaScript value is a \<open>json option\<close>, \<open>None\<close> being
  \<open>undefined\<close>. Numbers are the integers that a double holds exactly
  (identifiers, offsets, limits, status codes); fractional numbers are not modelled. Strings are byte sequences (UTF-8). An
  object is an association list in property order, with distinct keys.
\<close>

datatype json =
    JNull
  | JBool bool
  | JNum int
  | JStr string
  | JArr "json list"
  | JObj "(string \<times> json) list"

type_synonym jsval = "json option"

text \<open>
  \<open>Record<string, string | number | boolean | undefined>\<close>: an object whose
  properties may hold \<open>undefined\<close>, in insertion order. A property assignment
  \<open>o[k] = v\<close> is \<open>AList.update k v o\<close> (replace in place, or add last).
\<close>

type_synonym js_object = "(string \<times> jsval) list"

text \<open>The truthiness test of \<open>if (v)\<close>, \<open>v ? a : b\<close> and \<open>v || w\<close>.\<close>

fun truthy :: "jsval \<Rightarrow> bool" where
  "truthy None = False"
| "truthy (Some JNull) = False"
| "truthy (Some (JBool b)) = b"
| "truthy (Some (JNum n)) = (n \<noteq> 0)"
| "truthy (Some (JStr s)) = (s \<noteq> [])"
| "truthy (Some (JArr xs)) = True"
| "truthy (Some (JObj kvs)) = True"

definition js_or :: "jsval \<Rightarrow> jsval \<Rightarrow> jsval" where
  "js_or a b = (if truthy a then a else b)"

text \<open>
  An object literal such as \<open>{ limit: args?.limit, offset: args?.offset }\<close>. These
  objects are only read by property, tested for truthiness and serialised with
  \<open>JSON.stringify\<close>; all three treat a property holding \<open>undefined\<close> as a
  missing one, so the literal keeps the defined properties.
\<close>

definition object_literal :: "js_object \<Rightarrow> jsval" where
  "object_literal props = Some (JObj (concat (map (\<lambda>(k, v). case v of None \<Rightarrow> [] | Some w \<Rightarrow> [(k, w)]) props)))"

text \<open>
  \<open>v?.k\<close>, for the property names used here (none of them is a built-in property of
  strings, numbers, booleans or arrays).
\<close>

fun opt_prop :: "jsval \<Rightarrow> string \<Rightarrow> jsval" where
  "opt_prop None k = None"
| "opt_prop (Some (JObj kvs)) k = map_of kvs k"
| "opt_prop (Some v) k = None"

subsection \<open>Conversion to string\<close>

fun join :: "string \<Rightarrow> string list \<Rightarrow> string" where
  "join sep [] = []"
| "join sep [x] = x"
| "join sep (x # y # ys) = x @ sep @ join sep (y # ys)"

fun string_of_nat :: "nat \<Rightarrow> string" where
  "string_of_nat n =
     (if n < 10 then [''0123456789'' ! n]
      else string_of_nat (n div 10) @ [''0123456789'' ! (n mod 10)])"

declare string_of_nat.simps [simp del]

definition string_of_int :: "int \<Rightarrow> string" where
  "string_of_int i = (if i < 0 then ''-'' @ string_of_nat (nat (- i)) else string_of_nat (nat i))"

text \<open>
  \<open>String(v)\<close> and \<open>`${v}`\<close>: an array joins its elements with commas (\<open>null\<close>
  as the empty string), an object is \<open>[object Object]\<close>.
\<close>

fun to_string :: "json \<Rightarrow> string" where
  "to_string JNull = ''null''"
| "to_string (JBool b) = (if b then ''true'' else ''false'')"
| "to_string (JNum n) = string_of_int n"
| "to_string (JStr s) = s"
| "to_string (JArr xs) = join '','' (map (\<lambda>x. if x = JNull then [] else to_string x) xs)"
| "to_string (JObj kvs) = ''[object Object]''"

definition String_js :: "jsval \<Rightarrow> string" where
  "String_js v = (case v of None \<Rightarrow> ''undefined'' | Some w \<Rightarrow> to_string w)"

subsection \<open>\<open>JSON.stringify\<close>\<close>

definition hex_lower :: "nat \<Rightarrow> char" where
  "hex_lower n = ''0123456789abcdef'' ! n"

definition escape_char :: "char \<Rightarrow> string" where
  "escape_char c =
     (if c = CHR 0x08 then [CHR 0x5C, CHR ''b'']
      else if c = CHR 0x09 then [CHR 0x5C, CHR ''t'']
      else if c = CHR 0x0A then [CHR 0x5C, CHR ''n'']
      else if c = CHR 0x0C then [CHR 0x5C, CHR ''f'']
      else if c = CHR 0x0D then [CHR 0x5C, CHR ''r'']
      else if c = CHR 0x22 then [CHR 0x5C, CHR 0x22]
      else if c = CHR 0x5C then [CHR 0x5C, CHR 0x5C]
      else if (of_char c :: nat) < 32
        then [CHR 0x5C, CHR ''u'', CHR ''0'', CHR ''0'',
              hex_lower (of_char c div 16), hex_lower (of_char c mod 16)]
      else [c])"

definition quote :: "string \<Rightarrow> string" where
  "quote s = [CHR 0x22] @ concat (map escape_char s) @ [CHR 0x22]"

text \<open>
  The serialisation of a value at indentation \<open>ind\<close>, each nesting level adding
  \<open>gap\<close>: with an empty gap the compact form, otherwise one member per line.
\<close>

fun ser :: "string \<Rightarrow> string \<Rightarrow> json \<Rightarrow> string" where
  "ser gap ind JNull = ''null''"
| "ser gap ind (JBool b) = (if b then ''true'' else ''false'')"
| "ser gap ind (JNum n) = string_of_int n"
| "ser gap ind (JStr s) = quote s"
| "ser gap ind (JArr xs) =
     (if xs = [] then ''[]''
      else if gap = [] then ''['' @ join '','' (map (ser gap (ind @ gap)) xs) @ '']''
      else ''['' @ [CHR 0x0A] @ (ind @ gap)
           @ join ('','' @ [CHR 0x0A] @ (ind @ gap)) (map (ser gap (ind @ gap)) xs)
           @ [CHR 0x0A] @ ind @ '']'')"
| "ser gap ind (JObj kvs) =
     (if kvs = [] then ''{}''
      else if gap = []
        then ''{'' @ join '','' (map (\<lambda>(k, v). quote k @ '':'' @ ser gap (ind @ gap) v) kvs) @ ''}''
      else ''{'' @ [CHR 0x0A] @ (ind @ gap)
           @ join ('','' @ [CHR 0x0A] @ (ind @ gap))
               (map (\<lambda>(k, v). quote k @ '': '' @ ser gap (ind @ gap) v) kvs)
           @ [CHR 0x0A] @ ind @ ''}'')"

text \<open>\<open>JSON.stringify(v)\<close> is \<open>JSON_stringify 0 v\<close>, \<open>JSON.stringify(v, null, 2)\<close> is
  \<open>JSON_stringify 2 v\<close>.\<close>

definition JSON_stringify :: "nat \<Rightarrow> json \<Rightarrow> string" where
  "JSON_stringify space v = ser (replicate (min space 10) CHR '' '') [] v"

subsection \<open>\<open>URLSearchParams\<close>\<close>

definition hex_upper :: "nat \<Rightarrow> char" where
  "hex_upper n = ''0123456789ABCDEF'' ! n"

text \<open>The \<open>application/x-www-form-urlencoded\<close> byte serialiser.\<close>

definition urlencode_byte :: "char \<Rightarrow> string" where
  "urlencode_byte c =
     (if c \<in> set ''abcdefghijklmnopqrstuvwxyzABCDEFGHIJKLMNOPQRSTUVWXYZ0123456789*-._'' then [c]
      else if c = CHR '' '' then ''+''
      else [CHR ''%'', hex_upper (of_char c div 16), hex_upper (of_char c mod 16)])"

definition urlencode :: "string \<Rightarrow> string" where
  "urlencode s = concat (map urlencode_byte s)"

fun URLSearchParams_toString :: "(string \<times> string) list \<Rightarrow> string" where
  "URLSearchParams_toString [] = []"
| "URLSearchParams_toString [(k, v)] = urlencode k @ ''='' @ urlencode v"
| "URLSearchParams_toString ((k, v) # p # ps) =
     urlencode k @ ''='' @ urlencode v @ ''&'' @ URLSearchParams_toString (p # ps)"

section \<open>The remote service\<close>

record http_request =
  req_method :: string
  req_url :: string
  req_headers :: "(string \<times> string) list"
  req_body :: "string option"

text \<open>
  A response: its status, its status text, and what \<open>response.json()\<close> gives, the
  parsed body or (\<open>Inl\<close>) the message of the \<open>SyntaxError\<close> of a body that is not
  JSON.
\<close>

record http_response =
  resp_status :: nat
  resp_statusText :: string
  resp_json :: "string + json"

definition ok :: "http_response \<Rightarrow> bool" where
  "ok response = (200 \<le> resp_status response \<and> resp_status response \<le> 299)"

text \<open>\<open>fetch\<close>: the response, or (\<open>Inl\<close>) the message of the \<open>TypeError\<close> of a
  request that reached no server.\<close>

type_synonym fetch = "http_request \<Rightarrow> string + http_response"

section \<open>Errors\<close>

datatype js_error =
    MakeApiError nat string jsval
  | TypeError string
  | SyntaxError string

fun error_name :: "js_error \<Rightarrow> string" where
  "error_name (MakeApiError statusCode statusText detail) = ''MakeApiError''"
| "error_name (TypeError m) = ''TypeError''"
| "error_name (SyntaxError m) = ''SyntaxError''"

fun error_message :: "js_error \<Rightarrow> string" where
  "error_message (MakeApiError statusCode statusText detail) =
     ''Make API Error '' @ string_of_nat statusCode @ '': '' @ statusText
       @ (if truthy detail then '' - '' @ String_js detail else [])"
| "error_message (TypeError m) = m"
| "error_message (SyntaxError m) = m"

text \<open>\<open>String(error)\<close>, that is \<open>Error.prototype.toString\<close>.\<close>

definition error_toString :: "js_error \<Rightarrow> string" where
  "error_toString e =
     (if error_message e = [] then error_name e else error_name e @ '': '' @ error_message e)"

fun instanceof_MakeApiError :: "js_error \<Rightarrow> bool" where
  "instanceof_MakeApiError (MakeApiError statusCode statusText detail) = True"
| "instanceof_MakeApiError e = False"

text \<open>An asynchronous call: the requests it issued, in order, and its outcome.\<close>

type_synonym 'a io = "http_request list \<times> (js_error + 'a)"

section \<open>The API client (\<open>make-client.ts\<close>)\<close>

record MakeConfig =
  apiToken :: string
  zone :: string

record MakeClient =
  baseUrl :: string
  headers :: "(string \<times> string) list"

definition new_MakeClient :: "MakeConfig \<Rightarrow> MakeClient" where
  "new_MakeClient config =
     \<lparr> baseUrl = ''https://'' @ zone config @ ''.make.com/api/v2'',
       headers = [(''Authorization'', ''Token '' @ apiToken config),
                  (''Content-Type'', ''application/json'')] \<rparr>"

subsection \<open>\<open>request\<close>\<close>

text \<open>The loop over \<open>Object.entries(queryParams)\<close>, appending to \<open>params\<close>.\<close>

fun append_params :: "js_object \<Rightarrow> (string \<times> string) list \<Rightarrow> (string \<times> string) list" where
  "append_params [] params = params"
| "append_params ((key, v) # rest) params =
     append_params rest (if v \<noteq> None then params @ [(key, String_js v)] else params)"

definition request_url :: "MakeClient \<Rightarrow> string \<Rightarrow> js_object option \<Rightarrow> string" where
  "request_url client path queryParams =
     (let url = baseUrl client @ path in
      case queryParams of
        None \<Rightarrow> url
      | Some qp \<Rightarrow>
          (let queryString = URLSearchParams_toString (append_params qp []) in
           if queryString \<noteq> [] then url @ ''?'' @ queryString else url))"

text \<open>\<open>errorBody.message\<close>: reading a property of \<open>null\<close> throws.\<close>

definition get_prop :: "json \<Rightarrow> string \<Rightarrow> js_error + jsval" where
  "get_prop v k =
     (if v = JNull
      then Inl (TypeError (''Cannot read properties of null (reading '' @ [CHR 0x27] @ k @ [CHR 0x27] @ '')''))
      else Inr (opt_prop (Some v) k))"

text \<open>The \<open>try\<close> block of the failure branch: any exception in it leaves \<open>detail\<close>
  undefined.\<close>

definition error_detail :: "http_response \<Rightarrow> jsval" where
  "error_detail response =
     (case resp_json response of
        Inl m \<Rightarrow> None
      | Inr errorBody \<Rightarrow>
          (case get_prop errorBody ''message'' of
             Inl e \<Rightarrow> None
           | Inr message \<Rightarrow>
               if truthy message then message
               else (case get_prop errorBody ''detail'' of
                       Inl e \<Rightarrow> None
                     | Inr detail \<Rightarrow>
                         js_or detail (Some (JStr (JSON_stringify 0 errorBody))))))"

text \<open>The request handed to \<open>fetch\<close>: the URL, and the method, headers and body of
  the options.\<close>

definition request_init ::
  "MakeClient \<Rightarrow> string \<Rightarrow> string \<Rightarrow> jsval \<Rightarrow> js_object option \<Rightarrow> http_request" where
  "request_init client method path body queryParams =
     \<lparr> req_method = method,
       req_url = request_url client path queryParams,
       req_headers = headers client,
       req_body = (case body of
                     None \<Rightarrow> None
                   | Some b \<Rightarrow> if truthy body then Some (JSON_stringify 0 b) else None) \<rparr>"

definition request ::
  "MakeClient \<Rightarrow> fetch \<Rightarrow> string \<Rightarrow> string \<Rightarrow> jsval \<Rightarrow> js_object option \<Rightarrow> json io" where
  "request client fetch method path body queryParams =
     (let req = request_init client method path body queryParams in
      case fetch req of
        Inl m \<Rightarrow> ([req], Inl (TypeError m))
      | Inr response \<Rightarrow>
          if \<not> ok response
          then ([req], Inl (MakeApiError (resp_status response) (resp_statusText response)
                              (error_detail response)))
          else (case resp_json response of
                  Inl m \<Rightarrow> ([req], Inl (SyntaxError m))
                | Inr v \<Rightarrow> ([req], Inr v)))"

subsection \<open>The methods the tools call\<close>

text \<open>
  Each method fixes the HTTP method and the path of \<open>request\<close> and forwards its
  arguments. The types of TypeScript are erased when the code runs and the dispatcher
  casts without checking, so every argument is a \<open>jsval\<close>.
\<close>

definition listScenarios :: "MakeClient \<Rightarrow> fetch \<Rightarrow> jsval \<Rightarrow> jsval \<Rightarrow> jsval \<Rightarrow> json io" where
  "listScenarios client fetch teamId organizationId pagination =
     (let q0 = ([] :: js_object);
          q1 = (if truthy teamId then AList.update ''teamId'' teamId q0 else q0);
          q2 = (if truthy organizationId
                then AList.update ''organizationId'' organizationId q1 else q1);
          q3 = (if truthy (opt_prop pagination ''offset'')
                then AList.update ''pg[offset]'' (opt_prop pagination ''offset'') q2 else q2);
          q4 = (if truthy (opt_prop pagination ''limit'')
                then AList.update ''pg[limit]'' (opt_prop pagination ''limit'') q3 else q3);
          q5 = (if truthy (opt_prop pagination ''sortBy'')
                then AList.update ''pg[sortBy]'' (opt_prop pagination ''sortBy'') q4 else q4);
          q6 = (if truthy (opt_prop pagination ''sortDir'')
                then AList.update ''pg[sortDir]'' (opt_prop pagination ''sortDir'') q5 else q5)
      in request client fetch ''GET'' ''/scenarios'' None (Some q6))"

definition getScenario :: "MakeClient \<Rightarrow> fetch \<Rightarrow> jsval \<Rightarrow> json io" where
  "getScenario client fetch scenarioId =
     request client fetch ''GET'' (''/scenarios/'' @ String_js scenarioId) None None"

definition createScenario :: "MakeClient \<Rightarrow> fetch \<Rightarrow> jsval \<Rightarrow> json io" where
  "createScenario client fetch params =
     request client fetch ''POST'' ''/scenarios'' params (Some [(''confirmed'', Some (JBool True))])"

definition updateScenario :: "MakeClient \<Rightarrow> fetch \<Rightarrow> jsval \<Rightarrow> jsval \<Rightarrow> json io" where
  "updateScenario client fetch scenarioId params =
     request client fetch ''PATCH'' (''/scenarios/'' @ String_js scenarioId) params
       (Some [(''confirmed'', Some (JBool True))])"

definition deleteScenario :: "MakeClient \<Rightarrow> fetch \<Rightarrow> jsval \<Rightarrow> json io" where
  "deleteScenario client fetch scenarioId =
     request client fetch ''DELETE'' (''/scenarios/'' @ String_js scenarioId) None None"

definition activateScenario :: "MakeClient \<Rightarrow> fetch \<Rightarrow> jsval \<Rightarrow> json io" where
  "activateScenario client fetch scenarioId =
     request client fetch ''POST'' (''/scenarios/'' @ String_js scenarioId @ ''/start'') None None"

definition deactivateScenario :: "MakeClient \<Rightarrow> fetch \<Rightarrow> jsval \<Rightarrow> json io" where
  "deactivateScenario client fetch scenarioId =
     request client fetch ''POST'' (''/scenarios/'' @ String_js scenarioId @ ''/stop'') None None"

definition runScenario :: "MakeClient \<Rightarrow> fetch \<Rightarrow> jsval \<Rightarrow> jsval \<Rightarrow> json io" where
  "runScenario client fetch scenarioId params =
     request client fetch ''POST'' (''/scenarios/'' @ String_js scenarioId @ ''/run'') params None"

text \<open>\<open>states: boolean = false\<close>: an undefined argument takes the default.\<close>

definition cloneScenario ::
  "MakeClient \<Rightarrow> fetch \<Rightarrow> jsval \<Rightarrow> jsval \<Rightarrow> jsval \<Rightarrow> jsval \<Rightarrow> jsval \<Rightarrow> json io" where
  "cloneScenario client fetch scenarioId name teamId organizationId states =
     (let states = (case states of None \<Rightarrow> Some (JBool False) | Some s \<Rightarrow> Some s) in
      request client fetch ''POST'' (''/scenarios/'' @ String_js scenarioId @ ''/clone'')
        (object_literal [(''name'', name), (''teamId'', teamId), (''states'', states)])
        (Some [(''organizationId'', organizationId)]))"

definition getScenarioBlueprint :: "MakeClient \<Rightarrow> fetch \<Rightarrow> jsval \<Rightarrow> json io" where
  "getScenarioBlueprint client fetch scenarioId =
     request client fetch ''GET'' (''/scenarios/'' @ String_js scenarioId @ ''/blueprint'') None None"

definition listConnections :: "MakeClient \<Rightarrow> fetch \<Rightarrow> jsval \<Rightarrow> jsval \<Rightarrow> json io" where
  "listConnections client fetch teamId pagination =
     (let q0 = [(''teamId'', teamId)];
          q1 = (if truthy (opt_prop pagination ''offset'')
                then AList.update ''pg[offset]'' (opt_prop pagination ''offset'') q0 else q0);
          q2 = (if truthy (opt_prop pagination ''limit'')
                then AList.update ''pg[limit]'' (opt_prop pagination ''limit'') q1 else q1)
      in request client fetch ''GET'' ''/connections'' None (Some q2))"

definition listHooks :: "MakeClient \<Rightarrow> fetch \<Rightarrow> jsval \<Rightarrow> jsval \<Rightarrow> json io" where
  "listHooks client fetch teamId pagination =
     (let q0 = [(''teamId'', teamId)];
          q1 = (if truthy (opt_prop pagination ''offset'')
                then AList.update ''pg[offset]'' (opt_prop pagination ''offset'') q0 else q0);
          q2 = (if truthy (opt_prop pagination ''limit'')
                then AList.update ''pg[limit]'' (opt_prop pagination ''limit'') q1 else q1)
      in request client fetch ''GET'' ''/hooks'' None (Some q2))"

definition listDataStores :: "MakeClient \<Rightarrow> fetch \<Rightarrow> jsval \<Rightarrow> jsval \<Rightarrow> json io" where
  "listDataStores client fetch teamId pagination =
     (let q0 = [(''teamId'', teamId)];
          q1 = (if truthy (opt_prop pagination ''offset'')
                then AList.update ''pg[offset]'' (opt_prop pagination ''offset'') q0 else q0);
          q2 = (if truthy (opt_prop pagination ''limit'')
                then AList.update ''pg[limit]'' (opt_prop pagination ''limit'') q1 else q1)
      in request client fetch ''GET'' ''/data-stores'' None (Some q2))"

definition getDataStore :: "MakeClient \<Rightarrow> fetch \<Rightarrow> jsval \<Rightarrow> json io" where
  "getDataStore client fetch dataStoreId =
     request client fetch ''GET'' (''/data-stores/'' @ String_js dataStoreId) None None"

definition createDataStore ::
  "MakeClient \<Rightarrow> fetch \<Rightarrow> jsval \<Rightarrow> jsval \<Rightarrow> jsval \<Rightarrow> jsval \<Rightarrow> json io" where
  "createDataStore client fetch teamId name maxSize dataStructureId =
     request client fetch ''POST'' ''/data-stores''
       (object_literal [(''teamId'', teamId), (''name'', name), (''maxSizeMB'', maxSize),
                        (''dataStructureId'', dataStructureId)])
       None"

definition listDataStoreRecords :: "MakeClient \<Rightarrow> fetch \<Rightarrow> jsval \<Rightarrow> jsval \<Rightarrow> json io" where
  "listDataStoreRecords client fetch dataStoreId pagination =
     (let q0 = ([] :: js_object);
          q1 = (if truthy (opt_prop pagination ''offset'')
                then AList.update ''pg[offset]'' (opt_prop pagination ''offset'') q0 else q0);
          q2 = (if truthy (opt_prop pagination ''limit'')
                then AList.update ''pg[limit]'' (opt_prop pagination ''limit'') q1 else q1)
      in request client fetch ''GET'' (''/data-stores/'' @ String_js dataStoreId @ ''/data'') None
           (Some q2))"

definition createDataStoreRecord :: "MakeClient \<Rightarrow> fetch \<Rightarrow> jsval \<Rightarrow> jsval \<Rightarrow> json io" where
  "createDataStoreRecord client fetch dataStoreId data =
     request client fetch ''POST'' (''/data-stores/'' @ String_js dataStoreId @ ''/data'') data None"

definition listTeams :: "MakeClient \<Rightarrow> fetch \<Rightarrow> jsval \<Rightarrow> jsval \<Rightarrow> json io" where
  "listTeams client fetch organizationId pagination =
     (let q0 = [(''organizationId'', organizationId)];
          q1 = (if truthy (opt_prop pagination ''offset'')
                then AList.update ''pg[offset]'' (opt_prop pagination ''offset'') q0 else q0);
          q2 = (if truthy (opt_prop pagination ''limit'')
                then AList.update ''pg[limit]'' (opt_prop pagination ''limit'') q1 else q1)
      in request client fetch ''GET'' ''/teams'' None (Some q2))"

definition listOrganizations :: "MakeClient \<Rightarrow> fetch \<Rightarrow> jsval \<Rightarrow> json io" where
  "listOrganizations client fetch pagination =
     (let q0 = ([] :: js_object);
          q1 = (if truthy (opt_prop pagination ''offset'')
                then AList.update ''pg[offset]'' (opt_prop pagination ''offset'') q0 else q0);
          q2 = (if truthy (opt_prop pagination ''limit'')
                then AList.update ''pg[limit]'' (opt_prop pagination ''limit'') q1 else q1)
      in request client fetch ''GET'' ''/organizations'' None (Some q2))"

definition getCurrentUser :: "MakeClient \<Rightarrow> fetch \<Rightarrow> json io" where
  "getCurrentUser client fetch = request client fetch ''GET'' ''/users/me'' None None"

definition getScenarioLogs :: "MakeClient \<Rightarrow> fetch \<Rightarrow> jsval \<Rightarrow> jsval \<Rightarrow> json io" where
  "getScenarioLogs client fetch scenarioId pagination =
     (let q0 = ([] :: js_object);
          q1 = (if truthy (opt_prop pagination ''offset'')
                then AList.update ''pg[offset]'' (opt_prop pagination ''offset'') q0 else q0);
          q2 = (if truthy (opt_prop pagination ''limit'')
                then AList.update ''pg[limit]'' (opt_prop pagination ''limit'') q1 else q1)
      in request client fetch ''GET'' (''/scenarios/'' @ String_js scenarioId @ ''/logs'') None
           (Some q2))"

section \<open>The tool dispatcher of the standalone server (\<open>src/index.ts\<close>)\<close>

text \<open>
  The catalog: each tool's name, the fields of its input schema with their types, and
  the fields the schema declares required (the description strings are left out).
\<close>

record tool =
  tool_name :: string
  properties :: "(string \<times> string) list"
  required :: "string list"

definition tools :: "tool list" where
  "tools =
   [\<lparr> tool_name = ''list_scenarios'',
      properties = [(''teamId'', ''number''), (''organizationId'', ''number''),
                    (''limit'', ''number''), (''offset'', ''number'')],
      required = [] \<rparr>,
    \<lparr> tool_name = ''get_scenario'',
      properties = [(''scenarioId'', ''number'')],
      required = [''scenarioId''] \<rparr>,
    \<lparr> tool_name = ''create_scenario'',
      properties = [(''teamId'', ''number''), (''name'', ''string''), (''blueprint'', ''string''),
                    (''scheduling'', ''string''), (''folderId'', ''number'')],
      required = [''teamId'', ''blueprint'', ''scheduling''] \<rparr>,
    \<lparr> tool_name = ''update_scenario'',
      properties = [(''scenarioId'', ''number''), (''name'', ''string''), (''blueprint'', ''string''),
                    (''scheduling'', ''string''), (''folderId'', ''number'')],
      required = [''scenarioId''] \<rparr>,
    \<lparr> tool_name = ''delete_scenario'',
      properties = [(''scenarioId'', ''number'')],
      required = [''scenarioId''] \<rparr>,
    \<lparr> tool_name = ''activate_scenario'',
      properties = [(''scenarioId'', ''number'')],
      required = [''scenarioId''] \<rparr>,
    \<lparr> tool_name = ''deactivate_scenario'',
      properties = [(''scenarioId'', ''number'')],
      required = [''scenarioId''] \<rparr>,
    \<lparr> tool_name = ''run_scenario'',
      properties = [(''scenarioId'', ''number''), (''data'', ''object''), (''responsive'', ''boolean'')],
      required = [''scenarioId''] \<rparr>,
    \<lparr> tool_name = ''clone_scenario'',
      properties = [(''scenarioId'', ''number''), (''name'', ''string''), (''teamId'', ''number''),
                    (''organizationId'', ''number'')],
      required = [''scenarioId'', ''name'', ''teamId'', ''organizationId''] \<rparr>,
    \<lparr> tool_name = ''get_scenario_blueprint'',
      properties = [(''scenarioId'', ''number'')],
      required = [''scenarioId''] \<rparr>,
    \<lparr> tool_name = ''get_scenario_logs'',
      properties = [(''scenarioId'', ''number''), (''limit'', ''number'')],
      required = [''scenarioId''] \<rparr>,
    \<lparr> tool_name = ''list_connections'',
      properties = [(''teamId'', ''number''), (''limit'', ''number'')],
      required = [''teamId''] \<rparr>,
    \<lparr> tool_name = ''list_hooks'',
      properties = [(''teamId'', ''number''), (''limit'', ''number'')],
      required = [''teamId''] \<rparr>,
    \<lparr> tool_name = ''list_data_stores'',
      properties = [(''teamId'', ''number''), (''limit'', ''number'')],
      required = [''teamId''] \<rparr>,
    \<lparr> tool_name = ''get_data_store'',
      properties = [(''dataStoreId'', ''number'')],
      required = [''dataStoreId''] \<rparr>,
    \<lparr> tool_name = ''create_data_store'',
      properties = [(''teamId'', ''number''), (''name'', ''string''), (''maxSize'', ''number'')],
      required = [''teamId'', ''name''] \<rparr>,
    \<lparr> tool_name = ''list_data_store_records'',
      properties = [(''dataStoreId'', ''number''), (''limit'', ''number'')],
      required = [''dataStoreId''] \<rparr>,
    \<lparr> tool_name = ''create_data_store_record'',
      properties = [(''dataStoreId'', ''number''), (''data'', ''object'')],
      required = [''dataStoreId'', ''data''] \<rparr>,
    \<lparr> tool_name = ''list_teams'',
      properties = [(''organizationId'', ''number''), (''limit'', ''number'')],
      required = [''organizationId''] \<rparr>,
    \<lparr> tool_name = ''list_organizations'',
      properties = [(''limit'', ''number'')],
      required = [] \<rparr>,
    \<lparr> tool_name = ''get_current_user'',
      properties = [],
      required = [] \<rparr>]"

record content_block =
  block_type :: string
  block_text :: string

text \<open>The result of an invocation; \<open>isError = None\<close> is a result with no error flag.\<close>

record tool_result =
  content :: "content_block list"
  isError :: "bool option"

text \<open>
  \<open>const result = await ...; return { content: [{ type: "text", text:
  JSON.stringify(result, null, 2) }] }\<close>, the end of every branch of the switch: a
  rejected call leaves the branch with its error.
\<close>

definition text_result :: "json io \<Rightarrow> tool_result io" where
  "text_result call =
     (case call of
        (reqs, Inl error) \<Rightarrow> (reqs, Inl error)
      | (reqs, Inr result) \<Rightarrow>
          (reqs, Inr \<lparr> content = [\<lparr> block_type = ''text'',
                                     block_text = JSON_stringify 2 result \<rparr>],
                        isError = None \<rparr>))"

text \<open>The body of the \<open>try\<close>: the switch on the tool's name.\<close>

definition call_tool_switch :: "MakeClient \<Rightarrow> fetch \<Rightarrow> string \<Rightarrow> jsval \<Rightarrow> tool_result io" where
  "call_tool_switch client fetch name args =
     (if name = ''list_scenarios'' then
        text_result (listScenarios client fetch (opt_prop args ''teamId'')
          (opt_prop args ''organizationId'')
          (object_literal [(''limit'', opt_prop args ''limit''), (''offset'', opt_prop args ''offset'')]))
      else if name = ''get_scenario'' then
        text_result (getScenario client fetch (opt_prop args ''scenarioId''))
      else if name = ''create_scenario'' then
        text_result (createScenario client fetch
          (object_literal [(''teamId'', opt_prop args ''teamId''),
                           (''blueprint'', opt_prop args ''blueprint''),
                           (''scheduling'', opt_prop args ''scheduling''),
                           (''folderId'', opt_prop args ''folderId'')]))
      else if name = ''update_scenario'' then
        text_result (updateScenario client fetch (opt_prop args ''scenarioId'')
          (object_literal [(''name'', opt_prop args ''name''),
                           (''blueprint'', opt_prop args ''blueprint''),
                           (''scheduling'', opt_prop args ''scheduling''),
                           (''folderId'', opt_prop args ''folderId'')]))
      else if name = ''delete_scenario'' then
        text_result (deleteScenario client fetch (opt_prop args ''scenarioId''))
      else if name = ''activate_scenario'' then
        text_result (activateScenario client fetch (opt_prop args ''scenarioId''))
      else if name = ''deactivate_scenario'' then
        text_result (deactivateScenario client fetch (opt_prop args ''scenarioId''))
      else if name = ''run_scenario'' then
        text_result (runScenario client fetch (opt_prop args ''scenarioId'')
          (object_literal [(''data'', opt_prop args ''data''),
                           (''responsive'', opt_prop args ''responsive'')]))
      else if name = ''clone_scenario'' then
        text_result (cloneScenario client fetch (opt_prop args ''scenarioId'')
          (opt_prop args ''name'') (opt_prop args ''teamId'') (opt_prop args ''organizationId'') None)
      else if name = ''get_scenario_blueprint'' then
        text_result (getScenarioBlueprint client fetch (opt_prop args ''scenarioId''))
      else if name = ''get_scenario_logs'' then
        text_result (getScenarioLogs client fetch (opt_prop args ''scenarioId'')
          (object_literal [(''limit'', opt_prop args ''limit'')]))
      else if name = ''list_connections'' then
        text_result (listConnections client fetch (opt_prop args ''teamId'')
          (object_literal [(''limit'', opt_prop args ''limit'')]))
      else if name = ''list_hooks'' then
        text_result (listHooks client fetch (opt_prop args ''teamId'')
          (object_literal [(''limit'', opt_prop args ''limit'')]))
      else if name = ''list_data_stores'' then
        text_result (listDataStores client fetch (opt_prop args ''teamId'')
          (object_literal [(''limit'', opt_prop args ''limit'')]))
      else if name = ''get_data_store'' then
        text_result (getDataStore client fetch (opt_prop args ''dataStoreId''))
      else if name = ''create_data_store'' then
        text_result (createDataStore client fetch (opt_prop args ''teamId'')
          (opt_prop args ''name'') (opt_prop args ''maxSize'') None)
      else if name = ''list_data_store_records'' then
        text_result (listDataStoreRecords client fetch (opt_prop args ''dataStoreId'')
          (object_literal [(''limit'', opt_prop args ''limit'')]))
      else if name = ''create_data_store_record'' then
        text_result (createDataStoreRecord client fetch (opt_prop args ''dataStoreId'')
          (opt_prop args ''data''))
      else if name = ''list_teams'' then
        text_result (listTeams client fetch (opt_prop args ''organizationId'')
          (object_literal [(''limit'', opt_prop args ''limit'')]))
      else if name = ''list_organizations'' then
        text_result (listOrganizations client fetch
          (object_literal [(''limit'', opt_prop args ''limit'')]))
      else if name = ''get_current_user'' then
        text_result (getCurrentUser client fetch)
      else
        ([], Inr \<lparr> content = [\<lparr> block_type = ''text'',
                                 block_text = ''Unknown tool: '' @ name \<rparr>],
                    isError = Some True \<rparr>))"

text \<open>
  The handler of a tool call: the switch inside \<open>try\<close>, and the \<open>catch\<close> that
  turns a \<open>MakeApiError\<close> into an error result and throws anything else again.
  \<open>Inl\<close> is an exception that leaves the handler.
\<close>

definition call_tool_handler :: "MakeClient \<Rightarrow> fetch \<Rightarrow> string \<Rightarrow> jsval \<Rightarrow> tool_result io" where
  "call_tool_handler client fetch name args =
     (case call_tool_switch client fetch name args of
        (reqs, Inr result) \<Rightarrow> (reqs, Inr result)
      | (reqs, Inl error) \<Rightarrow>
          if instanceof_MakeApiError error
          then (reqs, Inr \<lparr> content = [\<lparr> block_type = ''text'',
                                          block_text = ''Make API Error: '' @ error_message error \<rparr>],
                             isError = Some True \<rparr>)
          else (reqs, Inl error))"

section \<open>The tool dispatcher of the hosted handler (\<open>api/mcp.ts\<close>)\<close>

text \<open>
  The hosted handler that installs its own \<open>CallToolRequestSchema\<close> handler, with
  two tools. The other hosted file registers each tool with \<open>server.tool\<close> and a
  zod schema: there the lookup by name, the validation of the arguments and the handling
  of exceptions all happen inside the SDK, so it has no dispatcher of its own to model.
\<close>

definition hosted_tools :: "tool list" where
  "hosted_tools =
   [\<lparr> tool_name = ''list_scenarios'',
      properties = [(''teamId'', ''number''), (''organizationId'', ''number''),
                    (''limit'', ''number''), (''offset'', ''number'')],
      required = [] \<rparr>,
    \<lparr> tool_name = ''run_scenario'',
      properties = [(''scenarioId'', ''number'')],
      required = [''scenarioId''] \<rparr>]"

definition hosted_call_tool_switch ::
  "MakeClient \<Rightarrow> fetch \<Rightarrow> string \<Rightarrow> jsval \<Rightarrow> tool_result io" where
  "hosted_call_tool_switch client fetch name args =
     (if name = ''list_scenarios'' then
        text_result (listScenarios client fetch (opt_prop args ''teamId'')
          (opt_prop args ''organizationId'')
          (object_literal [(''limit'', opt_prop args ''limit''), (''offset'', opt_prop args ''offset'')]))
      else if name = ''run_scenario'' then
        text_result (runScenario client fetch (opt_prop args ''scenarioId'') None)
      else
        ([], Inr \<lparr> content = [\<lparr> block_type = ''text'',
                                 block_text = ''Unknown tool: '' @ name \<rparr>],
                    isError = Some True \<rparr>))"

text \<open>Here the \<open>catch\<close> turns every exception into an error result.\<close>

definition hosted_call_tool_handler ::
  "MakeClient \<Rightarrow> fetch \<Rightarrow> string \<Rightarrow> jsval \<Rightarrow> tool_result io" where
  "hosted_call_tool_handler client fetch name args =
     (case hosted_call_tool_switch client fetch name args of
        (reqs, Inr result) \<Rightarrow> (reqs, Inr result)
      | (reqs, Inl error) \<Rightarrow>
          (reqs, Inr \<lparr> content = [\<lparr> block_type = ''text'',
                                     block_text = error_toString error \<rparr>],
                        isError = Some True \<rparr>))"

section \<open>Test doubles\<close>

text \<open>A client for the default zone, a remote that answers every request with one
  response, and a remote that cannot be reached.\<close>

definition example_client :: MakeClient where
  "example_client = new_MakeClient \<lparr> apiToken = ''secret'', zone = ''eu1'' \<rparr>"

definition remote_returning :: "http_response \<Rightarrow> fetch" where
  "remote_returning response = (\<lambda>req. Inr response)"

definition remote_unreachable :: fetch where
  "remote_unreachable = (\<lambda>req. Inl ''fetch failed'')"


definition run_started :: http_response where
  "run_started =
     \<lparr> resp_status = 200, resp_statusText = ''OK'',
       resp_json = Inr (JObj [(''executionId'', JStr ''abc123''), (''status'', JStr ''success'')]) \<rparr>"







section \<open>Facts about the request layer\<close>

text \<open>The definitions that evaluate a call on concrete inputs.\<close>

lemmas client_defs =
  listScenarios_def getScenario_def createScenario_def updateScenario_def deleteScenario_def
  activateScenario_def deactivateScenario_def runScenario_def cloneScenario_def
  getScenarioBlueprint_def getScenarioLogs_def listConnections_def listHooks_def
  listDataStores_def getDataStore_def createDataStore_def listDataStoreRecords_def
  createDataStoreRecord_def listTeams_def listOrganizations_def getCurrentUser_def

lemmas eval_defs =
  call_tool_handler_def call_tool_switch_def hosted_call_tool_handler_def
  hosted_call_tool_switch_def client_defs text_result_def request_def request_init_def
  request_url_def example_client_def new_MakeClient_def remote_returning_def
  remote_unreachable_def ok_def error_detail_def get_prop_def js_or_def String_js_def
  string_of_int_def string_of_nat.simps object_literal_def JSON_stringify_def quote_def
  escape_char_def urlencode_def urlencode_byte_def hex_upper_def error_toString_def Let_def

lemma append_params_eq:
  "append_params qp acc = acc @ map (\<lambda>(k, v). (k, String_js v)) (filter (\<lambda>(k, v). v \<noteq> None) qp)"
  by (induction qp arbitrary: acc) auto

lemma toString_join:
  "URLSearchParams_toString ps = join ''&'' (map (\<lambda>(k, v). urlencode k @ ''='' @ urlencode v) ps)"
  by (induction ps rule: URLSearchParams_toString.induct) auto

lemma toString_empty_iff: "URLSearchParams_toString ps = [] \<longleftrightarrow> ps = []"
  by (induction ps rule: URLSearchParams_toString.induct) auto

lemma request_fst: "fst (request client fetch verb path body qp) = [request_init client verb path body qp]"
  by (simp add: request_def Let_def split: sum.splits)




text \<open>
  C4: in every call of \<open>request\<close>, a query parameter whose value is undefined is
  left out of the URL and every defined value (0, false and the empty string too) is
  encoded; the URL is the base URL, the path and, when at least one parameter is encoded,
  a question mark and the encoded parameters joined by ampersands.
\<close>

theorem request_url_encodes_defined:
  "request_url client path None = baseUrl client @ path
   \<and> request_url client path (Some qp) =
       baseUrl client @ path @
         (if filter (\<lambda>(k, v). v \<noteq> None) qp = [] then []
          else ''?'' @ join ''&'' (map (\<lambda>(k, v). urlencode k @ ''='' @ urlencode (String_js v))
                                     (filter (\<lambda>(k, v). v \<noteq> None) qp)))
   \<and> map req_url (fst (request client fetch verb path body queryParams)) =
       [request_url client path queryParams]
   \<and> request_url client path
         (Some [(''a'', Some (JNum 0)), (''b'', Some (JBool False)), (''c'', Some (JStr [])), (''d'', None)]) =
       baseUrl client @ path @ ''?a=0&b=false&c=''"
proof -
  have a: "request_url client path None = baseUrl client @ path"
    by (simp add: request_url_def)
  have b: "request_url client path (Some qp) =
       baseUrl client @ path @
         (if filter (\<lambda>(k, v). v \<noteq> None) qp = [] then []
          else ''?'' @ join ''&'' (map (\<lambda>(k, v). urlencode k @ ''='' @ urlencode (String_js v))
                                     (filter (\<lambda>(k, v). v \<noteq> None) qp)))" for qp
  proof -
    let ?ps = "map (\<lambda>(k, v). (k, String_js v)) (filter (\<lambda>(k, v). v \<noteq> None) qp)"
    have "request_url client path (Some qp) =
            baseUrl client @ path @ (if ?ps = [] then [] else ''?'' @ URLSearchParams_toString ?ps)"
      by (simp add: request_url_def Let_def append_params_eq toString_empty_iff)
    also have "URLSearchParams_toString ?ps =
        join ''&'' (map (\<lambda>(k, v). urlencode k @ ''='' @ urlencode (String_js v))
                      (filter (\<lambda>(k, v). v \<noteq> None) qp))"
      by (simp add: toString_join comp_def case_prod_unfold)
    finally show ?thesis by simp
  qed
  have c: "map req_url (fst (request client fetch verb path body queryParams)) =
       [request_url client path queryParams]"
    by (simp add: request_fst request_init_def)
  have d: "request_url client path
         (Some [(''a'', Some (JNum 0)), (''b'', Some (JBool False)), (''c'', Some (JStr [])), (''d'', None)]) =
       baseUrl client @ path @ ''?a=0&b=false&c=''"
    by (simp add: b String_js_def string_of_int_def string_of_nat.simps urlencode_def
          urlencode_byte_def)
  from a b c d show ?thesis by blast
qed

text \<open>
  C8: every call of \<open>createScenario\<close> and of \<open>updateScenario\<close> issues its one
  request with \<open>confirmed=true\<close> as the query string, whatever the scenario
  identifier and the parameters are.
\<close>

theorem confirmed_flag_set:
  "map req_method (fst (createScenario client fetch params)) = [''POST'']
   \<and> map req_url (fst (createScenario client fetch params)) =
       [baseUrl client @ ''/scenarios?confirmed=true'']
   \<and> map req_method (fst (updateScenario client fetch scenarioId params)) = [''PATCH'']
   \<and> map req_url (fst (updateScenario client fetch scenarioId params)) =
       [baseUrl client @ ''/scenarios/'' @ String_js scenarioId @ ''?confirmed=true'']"
  by (simp add: createScenario_def updateScenario_def request_fst request_init_def request_url_def
        String_js_def urlencode_def urlencode_byte_def)

lemma url_of_request:
  "map req_url (fst (request client fetch verb path body qp)) = [request_url client path qp]"
  by (simp add: request_fst request_init_def)



text \<open>
  C1 as stated fails: an offset, limit, team or organization identifier of 0 is left out
  of the URL, as an absent one is.
\<close>

theorem zero_is_omitted_counterexample:
  "map req_url (fst (listScenarios example_client remote_unreachable (Some (JNum 0)) (Some (JNum 0))
          (object_literal [(''limit'', Some (JNum 0)), (''offset'', Some (JNum 0))]))) =
     [''https://eu1.make.com/api/v2/scenarios'']
   \<and> map req_url (fst (getScenarioLogs example_client remote_unreachable (Some (JNum 7))
          (object_literal [(''limit'', Some (JNum 0)), (''offset'', Some (JNum 0))]))) =
     [''https://eu1.make.com/api/v2/scenarios/7/logs'']"
  by (simp add: eval_defs)

text \<open>
  C1, amended: each of the eight listing methods puts an offset or a limit (and
  \<open>listScenarios\<close> a team or organization identifier, a sort key or a sort
  direction) into the query parameters exactly when the value is truthy. An absent value
  and an explicit 0 are both left out; every non-zero number is encoded.
\<close>

theorem truthy_values_are_encoded:
  "map req_url (fst (listScenarios client fetch teamId organizationId pagination)) =
     [request_url client ''/scenarios''
        (Some (filter (\<lambda>(k, v). truthy v)
                 [(''teamId'', teamId), (''organizationId'', organizationId),
                  (''pg[offset]'', opt_prop pagination ''offset''),
                  (''pg[limit]'', opt_prop pagination ''limit''),
                  (''pg[sortBy]'', opt_prop pagination ''sortBy''),
                  (''pg[sortDir]'', opt_prop pagination ''sortDir'')]))]
   \<and> map req_url (fst (listConnections client fetch teamId pagination)) =
     [request_url client ''/connections''
        (Some ((''teamId'', teamId) # filter (\<lambda>(k, v). truthy v)
                 [(''pg[offset]'', opt_prop pagination ''offset''),
                  (''pg[limit]'', opt_prop pagination ''limit'')]))]
   \<and> map req_url (fst (listHooks client fetch teamId pagination)) =
     [request_url client ''/hooks''
        (Some ((''teamId'', teamId) # filter (\<lambda>(k, v). truthy v)
                 [(''pg[offset]'', opt_prop pagination ''offset''),
                  (''pg[limit]'', opt_prop pagination ''limit'')]))]
   \<and> map req_url (fst (listDataStores client fetch teamId pagination)) =
     [request_url client ''/data-stores''
        (Some ((''teamId'', teamId) # filter (\<lambda>(k, v). truthy v)
                 [(''pg[offset]'', opt_prop pagination ''offset''),
                  (''pg[limit]'', opt_prop pagination ''limit'')]))]
   \<and> map req_url (fst (listDataStoreRecords client fetch dataStoreId pagination)) =
     [request_url client (''/data-stores/'' @ String_js dataStoreId @ ''/data'')
        (Some (filter (\<lambda>(k, v). truthy v)
                 [(''pg[offset]'', opt_prop pagination ''offset''),
                  (''pg[limit]'', opt_prop pagination ''limit'')]))]
   \<and> map req_url (fst (listTeams client fetch organizationId pagination)) =
     [request_url client ''/teams''
        (Some ((''organizationId'', organizationId) # filter (\<lambda>(k, v). truthy v)
                 [(''pg[offset]'', opt_prop pagination ''offset''),
                  (''pg[limit]'', opt_prop pagination ''limit'')]))]
   \<and> map req_url (fst (listOrganizations client fetch pagination)) =
     [request_url client ''/organizations''
        (Some (filter (\<lambda>(k, v). truthy v)
                 [(''pg[offset]'', opt_prop pagination ''offset''),
                  (''pg[limit]'', opt_prop pagination ''limit'')]))]
   \<and> map req_url (fst (getScenarioLogs client fetch scenarioId pagination)) =
     [request_url client (''/scenarios/'' @ String_js scenarioId @ ''/logs'')
        (Some (filter (\<lambda>(k, v). truthy v)
                 [(''pg[offset]'', opt_prop pagination ''offset''),
                  (''pg[limit]'', opt_prop pagination ''limit'')]))]
   \<and> truthy (Some (JNum n)) = (n \<noteq> 0) \<and> \<not> truthy None"
proof -
  have 1: "map req_url (fst (listScenarios client fetch teamId organizationId pagination)) =
     [request_url client ''/scenarios''
        (Some (filter (\<lambda>(k, v). truthy v)
                 [(''teamId'', teamId), (''organizationId'', organizationId),
                  (''pg[offset]'', opt_prop pagination ''offset''),
                  (''pg[limit]'', opt_prop pagination ''limit''),
                  (''pg[sortBy]'', opt_prop pagination ''sortBy''),
                  (''pg[sortDir]'', opt_prop pagination ''sortDir'')]))]"
    by (simp add: listScenarios_def Let_def url_of_request)
  have 2: "map req_url (fst (listConnections client fetch teamId pagination)) =
     [request_url client ''/connections''
        (Some ((''teamId'', teamId) # filter (\<lambda>(k, v). truthy v)
                 [(''pg[offset]'', opt_prop pagination ''offset''),
                  (''pg[limit]'', opt_prop pagination ''limit'')]))]"
    by (simp add: listConnections_def Let_def url_of_request)
  have 3: "map req_url (fst (listHooks client fetch teamId pagination)) =
     [request_url client ''/hooks''
        (Some ((''teamId'', teamId) # filter (\<lambda>(k, v). truthy v)
                 [(''pg[offset]'', opt_prop pagination ''offset''),
                  (''pg[limit]'', opt_prop pagination ''limit'')]))]"
    by (simp add: listHooks_def Let_def url_of_request)
  have 4: "map req_url (fst (listDataStores client fetch teamId pagination)) =
     [request_url client ''/data-stores''
        (Some ((''teamId'', teamId) # filter (\<lambda>(k, v). truthy v)
                 [(''pg[offset]'', opt_prop pagination ''offset''),
                  (''pg[limit]'', opt_prop pagination ''limit'')]))]"
    by (simp add: listDataStores_def Let_def url_of_request)
  have 5: "map req_url (fst (listDataStoreRecords client fetch dataStoreId pagination)) =
     [request_url client (''/data-stores/'' @ String_js dataStoreId @ ''/data'')
        (Some (filter (\<lambda>(k, v). truthy v)
                 [(''pg[offset]'', opt_prop pagination ''offset''),
                  (''pg[limit]'', opt_prop pagination ''limit'')]))]"
    by (simp add: listDataStoreRecords_def Let_def url_of_request)
  have 6: "map req_url (fst (listTeams client fetch organizationId pagination)) =
     [request_url client ''/teams''
        (Some ((''organizationId'', organizationId) # filter (\<lambda>(k, v). truthy v)
                 [(''pg[offset]'', opt_prop pagination ''offset''),
                  (''pg[limit]'', opt_prop pagination ''limit'')]))]"
    by (simp add: listTeams_def Let_def url_of_request)
  have 7: "map req_url (fst (listOrganizations client fetch pagination)) =
     [request_url client ''/organizations''
        (Some (filter (\<lambda>(k, v). truthy v)
                 [(''pg[offset]'', opt_prop pagination ''offset''),
                  (''pg[limit]'', opt_prop pagination ''limit'')]))]"
    by (simp add: listOrganizations_def Let_def url_of_request)
  have 8: "map req_url (fst (getScenarioLogs client fetch scenarioId pagination)) =
     [request_url client (''/scenarios/'' @ String_js scenarioId @ ''/logs'')
        (Some (filter (\<lambda>(k, v). truthy v)
                 [(''pg[offset]'', opt_prop pagination ''offset''),
                  (''pg[limit]'', opt_prop pagination ''limit'')]))]"
    by (simp add: getScenarioLogs_def Let_def url_of_request)
  have 9: "truthy (Some (JNum n)) = (n \<noteq> 0)" and 10: "\<not> truthy None"
    by simp_all
  show ?thesis
    by (intro conjI) (rule 1 2 3 4 5 6 7 8 9 10)+
qed







section \<open>Facts about the dispatchers\<close>

lemma tool_names:
  "map tool_name tools =
     [''list_scenarios'', ''get_scenario'', ''create_scenario'', ''update_scenario'',
      ''delete_scenario'', ''activate_scenario'', ''deactivate_scenario'', ''run_scenario'',
      ''clone_scenario'', ''get_scenario_blueprint'', ''get_scenario_logs'', ''list_connections'',
      ''list_hooks'', ''list_data_stores'', ''get_data_store'', ''create_data_store'',
      ''list_data_store_records'', ''create_data_store_record'', ''list_teams'',
      ''list_organizations'', ''get_current_user'']"
  by (simp add: tools_def)

lemma switch_literal:
  "\<exists>m p b q. \<forall>fetch. call_tool_switch client fetch ''list_scenarios'' args = text_result (request client fetch m p b q)"
  "\<exists>m p b q. \<forall>fetch. call_tool_switch client fetch ''get_scenario'' args = text_result (request client fetch m p b q)"
  "\<exists>m p b q. \<forall>fetch. call_tool_switch client fetch ''create_scenario'' args = text_result (request client fetch m p b q)"
  "\<exists>m p b q. \<forall>fetch. call_tool_switch client fetch ''update_scenario'' args = text_result (request client fetch m p b q)"
  "\<exists>m p b q. \<forall>fetch. call_tool_switch client fetch ''delete_scenario'' args = text_result (request client fetch m p b q)"
  "\<exists>m p b q. \<forall>fetch. call_tool_switch client fetch ''activate_scenario'' args = text_result (request client fetch m p b q)"
  "\<exists>m p b q. \<forall>fetch. call_tool_switch client fetch ''deactivate_scenario'' args = text_result (request client fetch m p b q)"
  "\<exists>m p b q. \<forall>fetch. call_tool_switch client fetch ''run_scenario'' args = text_result (request client fetch m p b q)"
  "\<exists>m p b q. \<forall>fetch. call_tool_switch client fetch ''clone_scenario'' args = text_result (request client fetch m p b q)"
  "\<exists>m p b q. \<forall>fetch. call_tool_switch client fetch ''get_scenario_blueprint'' args = text_result (request client fetch m p b q)"
  "\<exists>m p b q. \<forall>fetch. call_tool_switch client fetch ''get_scenario_logs'' args = text_result (request client fetch m p b q)"
  "\<exists>m p b q. \<forall>fetch. call_tool_switch client fetch ''list_connections'' args = text_result (request client fetch m p b q)"
  "\<exists>m p b q. \<forall>fetch. call_tool_switch client fetch ''list_hooks'' args = text_result (request client fetch m p b q)"
  "\<exists>m p b q. \<forall>fetch. call_tool_switch client fetch ''list_data_stores'' args = text_result (request client fetch m p b q)"
  "\<exists>m p b q. \<forall>fetch. call_tool_switch client fetch ''get_data_store'' args = text_result (request client fetch m p b q)"
  "\<exists>m p b q. \<forall>fetch. call_tool_switch client fetch ''create_data_store'' args = text_result (request client fetch m p b q)"
  "\<exists>m p b q. \<forall>fetch. call_tool_switch client fetch ''list_data_store_records'' args = text_result (request client fetch m p b q)"
  "\<exists>m p b q. \<forall>fetch. call_tool_switch client fetch ''create_data_store_record'' args = text_result (request client fetch m p b q)"
  "\<exists>m p b q. \<forall>fetch. call_tool_switch client fetch ''list_teams'' args = text_result (request client fetch m p b q)"
  "\<exists>m p b q. \<forall>fetch. call_tool_switch client fetch ''list_organizations'' args = text_result (request client fetch m p b q)"
  "\<exists>m p b q. \<forall>fetch. call_tool_switch client fetch ''get_current_user'' args = text_result (request client fetch m p b q)"
  by ((intro exI allI)?, simp add: call_tool_switch_def client_defs Let_def)+

lemma switch_is_request:
  assumes "name \<in> set (map tool_name tools)"
  shows "\<exists>m p b q. \<forall>fetch. call_tool_switch client fetch name args
           = text_result (request client fetch m p b q)"
proof -
  have "list_all (\<lambda>n. \<exists>m p b q. \<forall>fetch. call_tool_switch client fetch n args
           = text_result (request client fetch m p b q)) (map tool_name tools)"
    unfolding tool_names by (simp only: list.pred_inject switch_literal simp_thms)
  with assms show ?thesis
    unfolding list_all_iff by blast
qed

lemma hosted_switch_is_request:
  assumes "name \<in> set (map tool_name hosted_tools)"
  shows "\<exists>m p b q. \<forall>fetch. hosted_call_tool_switch client fetch name args
           = text_result (request client fetch m p b q)"
proof -
  from assms have "name = ''list_scenarios'' \<or> name = ''run_scenario''"
    by (simp add: hosted_tools_def)
  then show ?thesis
  proof
    assume "name = ''list_scenarios''"
    then show ?thesis
      by (intro exI allI) (simp add: hosted_call_tool_switch_def listScenarios_def Let_def)
  next
    assume "name = ''run_scenario''"
    then show ?thesis
      by (intro exI allI) (simp add: hosted_call_tool_switch_def runScenario_def)
  qed
qed

lemma text_result_request:
  "text_result (request client fetch m p b q) =
     ([request_init client m p b q],
      case fetch (request_init client m p b q) of
        Inl msg \<Rightarrow> Inl (TypeError msg)
      | Inr response \<Rightarrow>
          if ok response
          then (case resp_json response of
                  Inl msg \<Rightarrow> Inl (SyntaxError msg)
                | Inr v \<Rightarrow> Inr \<lparr> content = [\<lparr> block_type = ''text'',
                                                  block_text = JSON_stringify 2 v \<rparr>],
                                     isError = None \<rparr>)
          else Inl (MakeApiError (resp_status response) (resp_statusText response)
                      (error_detail response)))"
  by (simp add: text_result_def request_def Let_def split: sum.splits)

lemma handler_of_request:
  assumes "call_tool_switch client fetch name args = text_result (request client fetch m p b q)"
  shows "call_tool_handler client fetch name args =
     ([request_init client m p b q],
      case fetch (request_init client m p b q) of
        Inl msg \<Rightarrow> Inl (TypeError msg)
      | Inr response \<Rightarrow>
          if ok response
          then (case resp_json response of
                  Inl msg \<Rightarrow> Inl (SyntaxError msg)
                | Inr v \<Rightarrow> Inr \<lparr> content = [\<lparr> block_type = ''text'',
                                                  block_text = JSON_stringify 2 v \<rparr>],
                                     isError = None \<rparr>)
          else Inr \<lparr> content = [\<lparr> block_type = ''text'',
                     block_text = ''Make API Error: '' @ error_message
                        (MakeApiError (resp_status response) (resp_statusText response)
                           (error_detail response)) \<rparr>],
                   isError = Some True \<rparr>)"
  unfolding call_tool_handler_def assms text_result_request
  by (auto split: sum.splits)

lemma hosted_handler_of_request:
  assumes "hosted_call_tool_switch client fetch name args
             = text_result (request client fetch m p b q)"
  shows "hosted_call_tool_handler client fetch name args =
     ([request_init client m p b q],
      case fetch (request_init client m p b q) of
        Inl msg \<Rightarrow> Inr \<lparr> content = [\<lparr> block_type = ''text'',
                     block_text = error_toString (TypeError msg) \<rparr>], isError = Some True \<rparr>
      | Inr response \<Rightarrow>
          if ok response
          then (case resp_json response of
                  Inl msg \<Rightarrow> Inr \<lparr> content = [\<lparr> block_type = ''text'',
                     block_text = error_toString (SyntaxError msg) \<rparr>], isError = Some True \<rparr>
                | Inr v \<Rightarrow> Inr \<lparr> content = [\<lparr> block_type = ''text'',
                                                  block_text = JSON_stringify 2 v \<rparr>],
                                     isError = None \<rparr>)
          else Inr \<lparr> content = [\<lparr> block_type = ''text'',
                     block_text = error_toString
                        (MakeApiError (resp_status response) (resp_statusText response)
                           (error_detail response)) \<rparr>],
                   isError = Some True \<rparr>)"
  unfolding hosted_call_tool_handler_def assms text_result_request
  by (simp split: sum.splits)

lemma hosted_tool_names: "map tool_name hosted_tools = [''list_scenarios'', ''run_scenario'']"
  by (simp add: hosted_tools_def)



text \<open>
  C7: a tool name that is not in the catalog gets an error-flagged result whose text names
  the unknown tool; the handler raises nothing and issues no request. This holds for the
  standalone handler and for the hosted one, each with its own catalog.
\<close>

theorem unknown_tool_error_result:
  "(name \<notin> set (map tool_name tools)
      \<longrightarrow> call_tool_handler client fetch name args =
            ([], Inr \<lparr> content = [\<lparr> block_type = ''text'',
                                     block_text = ''Unknown tool: '' @ name \<rparr>],
                        isError = Some True \<rparr>))
   \<and> (name \<notin> set (map tool_name hosted_tools)
      \<longrightarrow> hosted_call_tool_handler client fetch name args =
            ([], Inr \<lparr> content = [\<lparr> block_type = ''text'',
                                     block_text = ''Unknown tool: '' @ name \<rparr>],
                        isError = Some True \<rparr>))"
  unfolding tool_names hosted_tool_names
  by (simp add: call_tool_handler_def call_tool_switch_def hosted_call_tool_handler_def
        hosted_call_tool_switch_def)

theorem unknown_tool_error_result_witness:
  "''send_email'' \<notin> set (map tool_name tools)
   \<and> ''send_email'' \<notin> set (map tool_name hosted_tools)
   \<and> call_tool_handler example_client remote_unreachable ''send_email''
         (Some (JObj [(''to'', JStr ''a@b.c'')])) =
       ([], Inr \<lparr> content = [\<lparr> block_type = ''text'',
                                block_text = ''Unknown tool: send_email'' \<rparr>],
                   isError = Some True \<rparr>)
   \<and> hosted_call_tool_handler example_client remote_unreachable ''send_email''
         (Some (JObj [(''to'', JStr ''a@b.c'')])) =
       ([], Inr \<lparr> content = [\<lparr> block_type = ''text'',
                                block_text = ''Unknown tool: send_email'' \<rparr>],
                   isError = Some True \<rparr>)"
proof -
  have n1: "''send_email'' \<notin> set (map tool_name tools)"
    by (simp add: tool_names)
  have n2: "''send_email'' \<notin> set (map tool_name hosted_tools)"
    by (simp add: hosted_tool_names)
  from n1 n2
    unknown_tool_error_result [of "''send_email''" example_client remote_unreachable
      "Some (JObj [(''to'', JStr ''a@b.c'')])"]
  show ?thesis by simp
qed

text \<open>
  C9: when the API call of a tool succeeds (the remote answers the request with a status
  in 200..299 and a JSON body), the result is exactly one block of type text, holding
  \<open>JSON.stringify(result, null, 2)\<close>, with no error flag. The witness is
  \<open>run_scenario({scenarioId: 42})\<close> against a remote answering
  \<open>{"executionId":"abc123","status":"success"}\<close>.
\<close>

theorem success_is_one_text_block:
  assumes "fetch req = Inr response" and "ok response" and "resp_json response = Inr v"
  shows "(name \<in> set (map tool_name tools)
            \<and> fst (call_tool_handler client fetch name args) = [req]
          \<longrightarrow> snd (call_tool_handler client fetch name args) =
                Inr \<lparr> content = [\<lparr> block_type = ''text'', block_text = JSON_stringify 2 v \<rparr>],
                      isError = None \<rparr>)
       \<and> (name \<in> set (map tool_name hosted_tools)
            \<and> fst (hosted_call_tool_handler client fetch name args) = [req]
          \<longrightarrow> snd (hosted_call_tool_handler client fetch name args) =
                Inr \<lparr> content = [\<lparr> block_type = ''text'', block_text = JSON_stringify 2 v \<rparr>],
                      isError = None \<rparr>)"
proof (intro conjI impI)
  assume a: "name \<in> set (map tool_name tools)
               \<and> fst (call_tool_handler client fetch name args) = [req]"
  then obtain m p b q where
    sw: "call_tool_switch client fetch name args = text_result (request client fetch m p b q)"
    using switch_is_request by blast
  from a have "req = request_init client m p b q"
    by (simp add: handler_of_request [OF sw])
  with assms show "snd (call_tool_handler client fetch name args) =
                Inr \<lparr> content = [\<lparr> block_type = ''text'', block_text = JSON_stringify 2 v \<rparr>],
                      isError = None \<rparr>"
    by (simp add: handler_of_request [OF sw])
next
  assume a: "name \<in> set (map tool_name hosted_tools)
               \<and> fst (hosted_call_tool_handler client fetch name args) = [req]"
  then obtain m p b q where
    sw: "hosted_call_tool_switch client fetch name args
           = text_result (request client fetch m p b q)"
    using hosted_switch_is_request by blast
  from a have "req = request_init client m p b q"
    by (simp add: hosted_handler_of_request [OF sw])
  with assms show "snd (hosted_call_tool_handler client fetch name args) =
                Inr \<lparr> content = [\<lparr> block_type = ''text'', block_text = JSON_stringify 2 v \<rparr>],
                      isError = None \<rparr>"
    by (simp add: hosted_handler_of_request [OF sw])
qed

theorem success_is_one_text_block_witness:
  \<open>call_tool_handler example_client (remote_returning run_started) ''run_scenario''
          (Some (JObj [(''scenarioId'', JNum 42)])) =
     ([\<lparr> req_method = ''POST'', req_url = ''https://eu1.make.com/api/v2/scenarios/42/run'',
         req_headers = [(''Authorization'', ''Token secret''),
                        (''Content-Type'', ''application/json'')],
         req_body = Some ''{}'' \<rparr>],
      Inr \<lparr> content = [\<lparr> block_type = ''text'',
              block_text = ''{'' @ [CHR 0x0A] @ ''  "executionId": "abc123",'' @ [CHR 0x0A]
                           @ ''  "status": "success"'' @ [CHR 0x0A] @ ''}'' \<rparr>],
            isError = None \<rparr>)\<close>
proof -
  let ?req = "\<lparr> req_method = ''POST'', req_url = ''https://eu1.make.com/api/v2/scenarios/42/run'',
         req_headers = [(''Authorization'', ''Token secret''),
                        (''Content-Type'', ''application/json'')],
         req_body = Some ''{}'' \<rparr>"
  let ?args = "Some (JObj [(''scenarioId'', JNum 42)])"
  let ?v = "JObj [(''executionId'', JStr ''abc123''), (''status'', JStr ''success'')]"
  have h1: "remote_returning run_started ?req = Inr run_started"
    by (simp add: remote_returning_def)
  have h2: "ok run_started"
    by (simp add: ok_def run_started_def)
  have h3: "resp_json run_started = Inr ?v"
    by (simp add: run_started_def)
  have h4: "''run_scenario'' \<in> set (map tool_name tools)"
    by (simp add: tool_names)
  have h5: "fst (call_tool_handler example_client (remote_returning run_started)
                   ''run_scenario'' ?args) = [?req]"
    by (simp add: eval_defs run_started_def)
  have "snd (call_tool_handler example_client (remote_returning run_started)
               ''run_scenario'' ?args) =
          Inr \<lparr> content = [\<lparr> block_type = ''text'', block_text = JSON_stringify 2 ?v \<rparr>],
                isError = None \<rparr>"
    using success_is_one_text_block
            [where fetch = "remote_returning run_started" and req = ?req
               and response = run_started and v = ?v and name = "''run_scenario''"
               and client = example_client and args = ?args, OF h1 h2 h3] h4 h5
    by blast
  moreover have \<open>JSON_stringify 2 ?v =
      ''{'' @ [CHR 0x0A] @ ''  "executionId": "abc123",'' @ [CHR 0x0A]
            @ ''  "status": "success"'' @ [CHR 0x0A] @ ''}''\<close>
    by (simp add: JSON_stringify_def quote_def escape_char_def numeral_2_eq_2)
  ultimately show ?thesis
    using h5 by (simp add: prod_eq_iff)
qed







end
